theory Spec2Isabelle
  imports Complex_Main "HOL-Library.AList"
begin

section \<open>Data model of WeatherImagesApi/main.py\<close>

text \<open>
  The module keeps one process-wide dict \<open>metadata\<close> (image id to record), one JSON
  document on disk and two directories of files. A Python dict keeps insertion order,
  so the dict is an association list that is only changed through \<open>AList.update\<close>
  (\<open>metadata[k] = v\<close>) and \<open>AList.delete\<close> (\<open>del metadata[k]\<close>). The file system is
  a map from path strings to files; paths are compared as strings. The JSON document
  is the map that was last dumped into it (None while the file does not exist).
  What the imaging library, the operating system and \<open>uuid.uuid4()\<close> decide is an
  argument of the operation that asks them.
\<close>

datatype http_error = HTTPException (status_code: nat) (detail: string)

record dims =
  width :: nat
  height :: nat

text \<open>An image as PIL holds it in memory; \<open>img_format\<close> is None for an image that was
  not read from a file (the result of \<open>resize\<close>).\<close>

record pil_image =
  img_width :: nat
  img_height :: nat
  img_format :: "string option"
  img_mode :: string

text \<open>A file: bytes that PIL opens as an image (with what \<open>Image.open\<close> yields and the
  size in bytes), or any other bytes.\<close>

datatype fs_file = ImageFile pil_image nat | OtherFile nat

record image_info =
  i_dimensions :: dims
  i_format :: "string option"
  i_mode :: string
  i_size_bytes :: nat
  i_size_kb :: rat

record image_record =
  r_id :: string
  r_filename :: string
  r_url :: string
  r_source :: string
  r_dimensions :: dims
  r_format :: "string option"
  r_mode :: string
  r_size_bytes :: nat
  r_size_kb :: rat
  r_original_dimensions :: "dims option"

type_synonym metadata_map = "(string \<times> image_record) list"

record state =
  metadata :: metadata_map
  metadata_file :: "metadata_map option"
  files :: "string \<rightharpoonup> fs_file"

definition UPLOAD_DIR :: string where
  "UPLOAD_DIR = ''uploaded_images''"

definition PROJECT_IMAGES_DIR :: string where
  "PROJECT_IMAGES_DIR = ''images''"

definition HTTP_400_BAD_REQUEST :: nat where
  "HTTP_400_BAD_REQUEST = 400"

definition HTTP_403_FORBIDDEN :: nat where
  "HTTP_403_FORBIDDEN = 403"

definition HTTP_404_NOT_FOUND :: nat where
  "HTTP_404_NOT_FOUND = 404"

section \<open>String and path helpers of the Python library\<close>

text \<open>\<open>str.lower\<close> on the ASCII letters; every other character is left as it is.\<close>

definition lower_char :: "char \<Rightarrow> char" where
  "lower_char c =
     (case map_of (zip ''ABCDEFGHIJKLMNOPQRSTUVWXYZ'' ''abcdefghijklmnopqrstuvwxyz'') c of
        Some d \<Rightarrow> d
      | None \<Rightarrow> c)"

definition lower :: "string \<Rightarrow> string" where
  "lower s = map lower_char s"

definition endswith :: "string \<Rightarrow> string \<Rightarrow> bool" where
  "endswith s suf = (length suf \<le> length s \<and> drop (length s - length suf) s = suf)"

definition image_extensions :: "string list" where
  "image_extensions = [''.png'', ''.jpg'', ''.jpeg'', ''.gif'', ''.bmp'']"

text \<open>\<open>s.split(c)\<close>: never empty; \<open>[-1]\<close> of it is \<open>last\<close>.\<close>

fun split_sep :: "char \<Rightarrow> string \<Rightarrow> string list" where
  "split_sep c [] = [[]]"
| "split_sep c (x # xs) =
     (if x = c then [] # split_sep c xs
      else (case split_sep c xs of
              [] \<Rightarrow> [[x]]
            | y # ys \<Rightarrow> (x # y) # ys))"

text \<open>\<open>os.path.join\<close> of POSIX on two components.\<close>

definition os_path_join :: "string \<Rightarrow> string \<Rightarrow> string" where
  "os_path_join a b =
     (case b of
        c # _ \<Rightarrow> if c = CHR ''/'' then b
                 else if a = [] \<or> last a = CHR ''/'' then a @ b else a @ ''/'' @ b
      | [] \<Rightarrow> if a = [] \<or> last a = CHR ''/'' then a else a @ ''/'')"

text \<open>\<open>round(size_bytes / 1024, 2)\<close>: the quotient is exact in binary floating point
  (for sizes below \<open>2^53\<close>), and Python rounds it to two decimals, ties to even.\<close>

definition size_kb_of :: "nat \<Rightarrow> rat" where
  "size_kb_of size_bytes =
     (let q = (size_bytes * 100) div 1024; r = (size_bytes * 100) mod 1024;
          h = (if r < 512 then q else if 512 < r then q + 1
               else if even q then q else q + 1)
      in of_nat h / 100)"

section \<open>API key\<close>

text \<open>\<open>get_api_key\<close>: the header as the request carries it (None when absent);
  \<open>API_KEY\<close> is the configured secret.\<close>

definition get_api_key :: "string \<Rightarrow> string option \<Rightarrow> http_error + string" where
  "get_api_key API_KEY api_key_header =
     (case api_key_header of
        None \<Rightarrow> Inl (HTTPException HTTP_403_FORBIDDEN ''No API key provided'')
      | Some k \<Rightarrow>
          if k = [] then Inl (HTTPException HTTP_403_FORBIDDEN ''No API key provided'')
          else if k \<noteq> API_KEY then Inl (HTTPException HTTP_403_FORBIDDEN ''Invalid API key'')
          else Inr k)"

section \<open>Metadata store and image inspector\<close>

definition load_metadata :: "metadata_map option \<Rightarrow> metadata_map" where
  "load_metadata doc = (case doc of Some m \<Rightarrow> m | None \<Rightarrow> [])"

definition save_metadata :: "metadata_map \<Rightarrow> state \<Rightarrow> state" where
  "save_metadata m s = s\<lparr>metadata_file := Some m\<rparr>"

definition get_image_info :: "(string \<rightharpoonup> fs_file) \<Rightarrow> string \<Rightarrow> image_info option" where
  "get_image_info fs filepath =
     (case fs filepath of
        Some (ImageFile img size_bytes) \<Rightarrow>
          Some \<lparr>i_dimensions = \<lparr>width = img_width img, height = img_height img\<rparr>,
                i_format = img_format img,
                i_mode = img_mode img,
                i_size_bytes = size_bytes,
                i_size_kb = size_kb_of size_bytes\<rparr>
      | Some (OtherFile _) \<Rightarrow> None
      | None \<Rightarrow> None)"

section \<open>Startup\<close>

definition project_record :: "string \<Rightarrow> string \<Rightarrow> image_info \<Rightarrow> image_record" where
  "project_record image_id filename info =
     \<lparr>r_id = image_id,
      r_filename = filename,
      r_url = ''/images/'' @ filename,
      r_source = ''project'',
      r_dimensions = i_dimensions info,
      r_format = i_format info,
      r_mode = i_mode info,
      r_size_bytes = i_size_bytes info,
      r_size_kb = i_size_kb info,
      r_original_dimensions = None\<rparr>"

text \<open>The loop over \<open>os.listdir(PROJECT_IMAGES_DIR)\<close>. The listing pairs each entry
  with the value \<open>uuid.uuid4()\<close> returns when the loop reaches it (drawn only for
  an entry that passes the extension test).\<close>

fun init_project_images ::
  "(string \<rightharpoonup> fs_file) \<Rightarrow> (string \<times> string) list \<Rightarrow> metadata_map \<Rightarrow> metadata_map" where
  "init_project_images fs [] md = md"
| "init_project_images fs ((filename, image_id) # rest) md =
     (if list_ex (endswith (lower filename)) image_extensions then
        (case get_image_info fs (os_path_join PROJECT_IMAGES_DIR filename) of
           Some info \<Rightarrow>
             init_project_images fs rest
               (AList.update image_id (project_record image_id filename info) md)
         | None \<Rightarrow> init_project_images fs rest md)
      else init_project_images fs rest md)"

definition startup ::
  "metadata_map option \<Rightarrow> (string \<rightharpoonup> fs_file) \<Rightarrow> (string \<times> string) list \<Rightarrow> state" where
  "startup doc fs listing =
     (let md = load_metadata doc in
      if md = [] then
        (let md' = init_project_images fs listing md in
         save_metadata md' \<lparr>metadata = md', metadata_file = doc, files = fs\<rparr>)
      else \<lparr>metadata = md, metadata_file = doc, files = fs\<rparr>)"

section \<open>Reading\<close>

definition list_images :: "state \<Rightarrow> image_record list" where
  "list_images s = map snd (metadata s)"

record response =
  content :: fs_file
  media_type :: string

definition get_image :: "string \<Rightarrow> state \<Rightarrow> http_error + response" where
  "get_image image_id s =
     (case map_of (metadata s) image_id of
        None \<Rightarrow> Inl (HTTPException 404 ''Image not found'')
      | Some image_data \<Rightarrow>
          (let filepath = os_path_join
                 (if r_source image_data = ''uploaded'' then UPLOAD_DIR else PROJECT_IMAGES_DIR)
                 (r_filename image_data)
           in case files s filepath of
                None \<Rightarrow> Inl (HTTPException 404 ''Image file not found'')
              | Some f \<Rightarrow>
                  (case r_format image_data of
                     None \<Rightarrow> Inl (HTTPException 500
                               (CHR 0x27 # ''NoneType'' @ CHR 0x27 # '' object has no attribute '' @
                                CHR 0x27 # ''lower'' @ [CHR 0x27]))
                   | Some fmt \<Rightarrow> Inr \<lparr>content = f, media_type = ''image/'' @ lower fmt\<rparr>)))"

section \<open>Delete\<close>

record delete_reply =
  d_message :: string
  d_id :: string
  d_filename :: string

definition delete_image_body :: "string \<Rightarrow> state \<Rightarrow> (http_error + delete_reply) \<times> state" where
  "delete_image_body image_id s =
     (case map_of (metadata s) image_id of
        None \<Rightarrow> (Inl (HTTPException HTTP_404_NOT_FOUND ''Image not found''), s)
      | Some image_data \<Rightarrow>
          if r_source image_data = ''project'' then
            (Inl (HTTPException HTTP_403_FORBIDDEN ''Cannot delete project images''), s)
          else
            (let filepath = os_path_join UPLOAD_DIR (r_filename image_data);
                 s1 = s\<lparr>files := (files s)(filepath := None)\<rparr>;
                 md' = AList.delete image_id (metadata s1);
                 s2 = save_metadata md' (s1\<lparr>metadata := md'\<rparr>)
             in (Inr \<lparr>d_message = ''Image deleted successfully'',
                      d_id = image_id,
                      d_filename = r_filename image_data\<rparr>, s2)))"

text \<open>The route: the dependency \<open>get_api_key\<close> runs before the body.\<close>

definition delete_image ::
  "string \<Rightarrow> string option \<Rightarrow> string \<Rightarrow> state \<Rightarrow> (http_error + delete_reply) \<times> state" where
  "delete_image API_KEY api_key_header image_id s =
     (case get_api_key API_KEY api_key_header of
        Inl e \<Rightarrow> (Inl e, s)
      | Inr api_key \<Rightarrow> delete_image_body image_id s)"

section \<open>Upload\<close>

text \<open>The uploaded part: its client-side file name, and what
  \<open>Image.open(io.BytesIO(contents))\<close> and the \<open>resize\<close> after it make of its bytes:
  the message of the exception one of them raises, or the decoded image. Either
  exception leaves the handler before \<open>path\<close> is bound.\<close>

record upload_file =
  uf_filename :: string
  uf_opened :: "string + pil_image"

definition resize :: "pil_image \<Rightarrow> nat \<times> nat \<Rightarrow> pil_image" where
  "resize decoded sz =
     decoded\<lparr>img_width := fst sz, img_height := snd sz, img_format := None\<rparr>"

text \<open>\<open>os.path.splitext(path)[1]\<close>: the extension of the last component of the path,
  from its last dot on; dots that lead the component start no extension.\<close>

definition splitext_ext :: "string \<Rightarrow> string" where
  "splitext_ext p =
     (let base = rev (takeWhile (\<lambda>c. c \<noteq> CHR ''/'') (rev p));
          name = dropWhile (\<lambda>c. c = CHR ''.'') base
      in if CHR ''.'' \<in> set name
         then CHR ''.'' # rev (takeWhile (\<lambda>c. c \<noteq> CHR ''.'') (rev name))
         else [])"

text \<open>
  \<open>resized_image.save(path)\<close> is given no format: the imaging library takes the format
  from the lowercased extension of the path, and the writer of that format decides at
  which size the file opens again. \<open>known_written\<close> holds the writers modelled here:
  a PNG, JPEG, GIF or BMP file holds the image at its own size; an ICO file holds a
  square image scaled to each of the sizes 16, 24, 32, 48, 64, 128, 256 that is not
  larger than the image, and opens at the largest of them. Where \<open>known_written\<close>
  gives nothing, the format and the size at which the file opens are left to the
  outcome below.
\<close>

definition ico_sizes :: "nat list" where
  "ico_sizes = [16, 24, 32, 48, 64, 128, 256]"

definition known_written :: "string \<Rightarrow> nat \<times> nat \<Rightarrow> (string \<times> nat \<times> nat) option" where
  "known_written ext sz =
     (case map_of [(''.png'', ''PNG''), (''.jpg'', ''JPEG''), (''.jpeg'', ''JPEG''),
                   (''.gif'', ''GIF''), (''.bmp'', ''BMP'')] ext of
        Some fmt \<Rightarrow> Some (fmt, sz)
      | None \<Rightarrow>
          if ext = ''.ico'' \<and> fst sz = snd sz then
            (case filter (\<lambda>n. n \<le> fst sz) ico_sizes of
               [] \<Rightarrow> None
             | n # ns \<Rightarrow> Some (''ICO'', last (n # ns), last (n # ns)))
          else None)"

text \<open>What \<open>resized_image.save(path)\<close> does, as far as the imaging library and the
  operating system choose it: it writes a file that opens as an image, with a mode and
  a length (and, for an extension outside \<open>known_written\<close>, a format and a size); or it
  returns with a file at the path that does not open as an image afterwards; or it
  raises, leaving a partial file or not.\<close>

datatype save_outcome =
    Saved string nat "string \<times> nat \<times> nat"
  | SavedUnreadable nat
  | SaveRaises string bool

definition save ::
  "pil_image \<Rightarrow> string \<Rightarrow> save_outcome \<Rightarrow> (string \<rightharpoonup> fs_file)
     \<Rightarrow> string \<times> (string \<rightharpoonup> fs_file) + (string \<rightharpoonup> fs_file)" where
  "save decoded path out fs =
     (case out of
        Saved mode size_bytes other \<Rightarrow>
          (case (case known_written (lower (splitext_ext path))
                        (img_width decoded, img_height decoded) of
                   Some written \<Rightarrow> written
                 | None \<Rightarrow> other) of
             (fmt, w, h) \<Rightarrow>
               Inr (fs(path \<mapsto> ImageFile \<lparr>img_width = w, img_height = h,
                                          img_format = Some fmt, img_mode = mode\<rparr>
                                        size_bytes)))
      | SavedUnreadable size_bytes \<Rightarrow> Inr (fs(path \<mapsto> OtherFile size_bytes))
      | SaveRaises msg partial \<Rightarrow>
          Inl (msg, if partial then fs(path \<mapsto> OtherFile 0) else fs))"

text \<open>Lines 177 to 196: the destination file name.\<close>

definition resolve_filename ::
  "string option \<Rightarrow> string \<Rightarrow> string \<Rightarrow> metadata_map \<Rightarrow> http_error + string" where
  "resolve_filename filename image_id original md =
     (case filename of
        Some fn \<Rightarrow>
          if fn \<noteq> [] then
            (if \<not> list_ex (endswith (lower fn)) image_extensions then
               Inl (HTTPException HTTP_400_BAD_REQUEST
                 ''Filename must have a valid image extension (.png, .jpg, .jpeg, .gif, .bmp)'')
             else if list_ex (\<lambda>img. r_filename img = fn) (map snd md) then
               Inl (HTTPException HTTP_400_BAD_REQUEST
                 (''An image with filename '' @ CHR 0x27 # fn @ CHR 0x27 # '' already exists''))
             else Inr fn)
          else Inr (image_id @ ''.'' @ last (split_sep CHR ''.'' original))
      | None \<Rightarrow> Inr (image_id @ ''.'' @ last (split_sep CHR ''.'' original)))"

definition uploaded_record ::
  "string \<Rightarrow> string \<Rightarrow> image_info \<Rightarrow> pil_image \<Rightarrow> image_record" where
  "uploaded_record image_id unique_filename info decoded =
     \<lparr>r_id = image_id,
      r_filename = unique_filename,
      r_url = ''/uploaded/'' @ unique_filename,
      r_source = ''uploaded'',
      r_dimensions = i_dimensions info,
      r_format = i_format info,
      r_mode = i_mode info,
      r_size_bytes = i_size_bytes info,
      r_size_kb = i_size_kb info,
      r_original_dimensions = Some \<lparr>width = img_width decoded, height = img_height decoded\<rparr>\<rparr>"

text \<open>The body of \<open>upload_image\<close>. \<open>image_id\<close> is the value of \<open>uuid.uuid4()\<close>.
  An HTTPException leaves the handler as it is; any other exception removes the
  file at \<open>path\<close> when \<open>path\<close> is bound, and becomes a 500.\<close>

definition upload_image_body ::
  "upload_file \<Rightarrow> string option \<Rightarrow> string \<Rightarrow> save_outcome \<Rightarrow> state
     \<Rightarrow> (http_error + image_record) \<times> state" where
  "upload_image_body ufile filename image_id out s =
     (case uf_opened ufile of
        Inl msg \<Rightarrow> (Inl (HTTPException 500 msg), s)
      | Inr decoded \<Rightarrow>
          (let resized_image = resize decoded (100, 100) in
           case resolve_filename filename image_id (uf_filename ufile) (metadata s) of
             Inl e \<Rightarrow> (Inl e, s)
           | Inr unique_filename \<Rightarrow>
               (let path = os_path_join UPLOAD_DIR unique_filename in
                case save resized_image path out (files s) of
                  Inl (msg, fs') \<Rightarrow>
                    (Inl (HTTPException 500 msg), s\<lparr>files := fs'(path := None)\<rparr>)
                | Inr fs' \<Rightarrow>
                    (case get_image_info fs' path of
                       None \<Rightarrow>
                         (Inl (HTTPException 500 ''Failed to process uploaded image''),
                          s\<lparr>files := fs'(path := None)\<rparr>)
                     | Some info \<Rightarrow>
                         (let rec = uploaded_record image_id unique_filename info decoded;
                              md' = AList.update image_id rec (metadata s);
                              s' = save_metadata md' (s\<lparr>files := fs', metadata := md'\<rparr>)
                          in (Inr rec, s'))))))"

definition upload_image ::
  "string \<Rightarrow> string option \<Rightarrow> upload_file \<Rightarrow> string option \<Rightarrow> string \<Rightarrow> save_outcome
     \<Rightarrow> state \<Rightarrow> (http_error + image_record) \<times> state" where
  "upload_image API_KEY api_key_header ufile filename image_id out s =
     (case get_api_key API_KEY api_key_header of
        Inl e \<Rightarrow> (Inl e, s)
      | Inr api_key \<Rightarrow> upload_image_body ufile filename image_id out s)"

section \<open>Properties: definitions\<close>


text \<open>The part of a file name after its last dot, the whole name when it has no dot.\<close>

definition after_last_dot :: "string \<Rightarrow> string" where
  "after_last_dot s =
     (if CHR ''.'' \<in> set s then rev (takeWhile (\<lambda>c. c \<noteq> CHR ''.'') (rev s)) else s)"

section \<open>Concrete requests and states\<close>

definition example_key :: string where
  "example_key = ''thisisapikey''"

definition no_files :: "string \<rightharpoonup> fs_file" where
  "no_files = Map.empty"

definition example_photo :: upload_file where
  "example_photo =
     \<lparr>uf_filename = ''holiday.photo.JPG'',
      uf_opened = Inr \<lparr>img_width = 640, img_height = 480,
                        img_format = Some ''JPEG'', img_mode = ''RGB''\<rparr>\<rparr>"

definition example_icon :: upload_file where
  "example_icon =
     \<lparr>uf_filename = ''favicon.ico'',
      uf_opened = Inr \<lparr>img_width = 640, img_height = 480,
                        img_format = Some ''PNG'', img_mode = ''RGBA''\<rparr>\<rparr>"

text \<open>For an extension outside \<open>known_written\<close> the examples take a writer that keeps
  the size of the image.\<close>

definition other_writer :: "string \<times> nat \<times> nat" where
  "other_writer = (''TIFF'', 100, 100)"

definition example_garbage :: upload_file where
  "example_garbage =
     \<lparr>uf_filename = ''notes.txt'', uf_opened = Inl ''cannot identify image file''\<rparr>"

definition example_id1 :: string where
  "example_id1 = ''1b4e28ba-2fa1-41d2-883f-0016d3cca427''"

definition example_id2 :: string where
  "example_id2 = ''6fa459ea-ee8a-4ca4-894e-db77e160355e''"

definition empty_state :: state where
  "empty_state = startup None no_files []"

definition one_upload_state :: state where
  "one_upload_state =
     snd (upload_image example_key (Some example_key) example_photo (Some ''Sunset.PNG'')
            example_id1 (Saved ''RGB'' 2048 other_writer) empty_state)"


definition sunset_record :: image_record where
  "sunset_record =
     \<lparr>r_id = example_id1, r_filename = ''Sunset.PNG'', r_url = ''/uploaded/Sunset.PNG'',
      r_source = ''uploaded'', r_dimensions = \<lparr>width = 100, height = 100\<rparr>,
      r_format = Some ''PNG'', r_mode = ''RGB'', r_size_bytes = 2048, r_size_kb = 2,
      r_original_dimensions = Some \<lparr>width = 640, height = 480\<rparr>\<rparr>"

definition project_files :: "string \<rightharpoonup> fs_file" where
  "project_files =
     no_files(''images/rain.gif'' \<mapsto>
       ImageFile \<lparr>img_width = 32, img_height = 24, img_format = Some ''GIF'', img_mode = ''P''\<rparr> 384)"

definition project_listing :: "(string \<times> string) list" where
  "project_listing = [(''rain.gif'', example_id2), (''README.md'', example_id1)]"

definition rain_record :: image_record where
  "rain_record =
     \<lparr>r_id = example_id2, r_filename = ''rain.gif'', r_url = ''/images/rain.gif'',
      r_source = ''project'', r_dimensions = \<lparr>width = 32, height = 24\<rparr>,
      r_format = Some ''GIF'', r_mode = ''P'', r_size_bytes = 384, r_size_kb = 19 / 50,
      r_original_dimensions = None\<rparr>"

definition project_state :: state where
  "project_state = startup None project_files project_listing"

section \<open>Reachable states\<close>



text \<open>
  The states the process can be in: a first start, a restart on the document an earlier
  run left, an upload with a target file name (any id), an upload without one, and a
  delete. \<open>fresh\<close> is what is assumed of the id that \<open>uuid.uuid4()\<close> returns to an
  upload without a target file name; a directory listing has no name twice.
\<close>

inductive reachable :: "(metadata_map \<Rightarrow> string \<Rightarrow> bool) \<Rightarrow> string \<Rightarrow> state \<Rightarrow> bool"
  for fresh :: "metadata_map \<Rightarrow> string \<Rightarrow> bool" and API_KEY :: string where
  reach_startup:
    "distinct (map fst listing) \<Longrightarrow> reachable fresh API_KEY (startup None fs listing)"
| reach_restart:
    "reachable fresh API_KEY s \<Longrightarrow> distinct (map fst listing) \<Longrightarrow>
     reachable fresh API_KEY (startup (metadata_file s) fs listing)"
| reach_upload_named:
    "reachable fresh API_KEY s \<Longrightarrow> fn \<noteq> [] \<Longrightarrow>
     reachable fresh API_KEY (snd (upload_image API_KEY hdr ufile (Some fn) image_id out s))"
| reach_upload_synthesized:
    "reachable fresh API_KEY s \<Longrightarrow> filename = None \<or> filename = Some [] \<Longrightarrow>
     fresh (metadata s) image_id \<Longrightarrow>
     reachable fresh API_KEY (snd (upload_image API_KEY hdr ufile filename image_id out s))"
| reach_delete:
    "reachable fresh API_KEY s \<Longrightarrow>
     reachable fresh API_KEY (snd (delete_image API_KEY hdr image_id s))"





section \<open>Unfolding and helper lemmas\<close>

lemmas model_defs =
  upload_image_def upload_image_body_def delete_image_def delete_image_body_def
  get_api_key_def get_image_def startup_def load_metadata_def save_metadata_def
  resolve_filename_def lower_def lower_char_def endswith_def image_extensions_def
  os_path_join_def UPLOAD_DIR_def PROJECT_IMAGES_DIR_def save_def resize_def
  splitext_ext_def known_written_def ico_sizes_def
  get_image_info_def uploaded_record_def project_record_def size_kb_of_def
  HTTP_400_BAD_REQUEST_def HTTP_403_FORBIDDEN_def HTTP_404_NOT_FOUND_def

lemmas example_defs =
  example_key_def no_files_def example_photo_def example_icon_def example_garbage_def
  example_id1_def example_id2_def empty_state_def other_writer_def

lemma get_api_key_Inr:
  "get_api_key API_KEY hdr = Inr k \<Longrightarrow> hdr = Some k \<and> k = API_KEY \<and> k \<noteq> []"
  by (auto simp: get_api_key_def split: option.splits if_splits)

lemma get_api_key_Inl:
  "get_api_key API_KEY hdr = Inl e \<Longrightarrow>
     e = HTTPException 403 ''No API key provided'' \<or> e = HTTPException 403 ''Invalid API key''"
  by (auto simp: get_api_key_def HTTP_403_FORBIDDEN_def split: option.splits if_splits)

lemma upload_body_success:
  assumes "upload_image_body ufile filename image_id out s = (Inr rec, s')"
  shows "\<exists>decoded unique_filename info.
           uf_opened ufile = Inr decoded \<and>
           resolve_filename filename image_id (uf_filename ufile) (metadata s) = Inr unique_filename \<and>
           save (resize decoded (100, 100)) (os_path_join UPLOAD_DIR unique_filename) out (files s)
             = Inr (files s') \<and>
           get_image_info (files s') (os_path_join UPLOAD_DIR unique_filename) = Some info \<and>
           rec = uploaded_record image_id unique_filename info decoded \<and>
           metadata s' = AList.update image_id rec (metadata s) \<and>
           metadata_file s' = Some (metadata s')"
  using assms
  by (auto simp: upload_image_body_def Let_def save_metadata_def
           split: sum.splits option.splits prod.splits)

lemma upload_success_body:
  "upload_image API_KEY hdr ufile filename image_id out s = (Inr rec, s') \<Longrightarrow>
   upload_image_body ufile filename image_id out s = (Inr rec, s')"
  by (auto simp: upload_image_def split: sum.splits)

lemma example_key_valid: "get_api_key example_key (Some example_key) = Inr example_key"
  by (simp add: get_api_key_def example_key_def)

lemma metadata_empty_state: "metadata empty_state = []"
  by (simp add: empty_state_def startup_def load_metadata_def save_metadata_def)

lemma metadata_one_upload_state: "metadata one_upload_state = [(example_id1, sunset_record)]"
  by (simp add: one_upload_state_def sunset_record_def model_defs example_defs Let_def)

lemma metadata_project_state: "metadata project_state = [(example_id2, rain_record)]"
  by (simp add: project_state_def project_files_def project_listing_def rain_record_def
        model_defs example_defs Let_def)

lemma split_sep_nonempty: "split_sep c s \<noteq> []"
  by (induction s) (simp_all split: list.split)

lemma split_sep_no_sep: "c \<notin> set s \<Longrightarrow> split_sep c s = [s]"
  by (induction s) auto

lemma length_split_sep: "length (split_sep c s) = Suc (count_list s c)"
  by (induction s) (auto split: list.split)

lemma takeWhile_no_sep: "c \<notin> set s \<Longrightarrow> takeWhile (\<lambda>x. x \<noteq> c) (rev s) = rev s"
  by (auto simp: takeWhile_eq_all_conv)

lemma last_split_sep: "last (split_sep c s) = rev (takeWhile (\<lambda>x. x \<noteq> c) (rev s))"
proof (induction s)
  case Nil
  then show ?case by simp
next
  case (Cons x xs)
  show ?case
  proof (cases "c \<in> set xs")
    case in_tail: True
    then have tw: "takeWhile (\<lambda>x. x \<noteq> c) (rev xs @ [x]) = takeWhile (\<lambda>x. x \<noteq> c) (rev xs)"
      by (auto simp: takeWhile_append)
    from in_tail have "0 < count_list xs c"
      using count_list_0_iff [of xs c] by auto
    then have "1 < length (split_sep c xs)"
      by (simp add: length_split_sep)
    then obtain y z zs where sp: "split_sep c xs = y # z # zs"
      by (cases "split_sep c xs"; cases "tl (split_sep c xs)") auto
    show ?thesis
      using Cons tw sp by (cases "x = c") simp_all
  next
    case False
    show ?thesis
    proof (cases "x = c")
      case True
      with False Cons show ?thesis
        by (simp add: split_sep_no_sep takeWhile_append takeWhile_no_sep)
    next
      case ne: False
      with False have nm: "c \<notin> set (x # xs)" by auto
      have "rev (takeWhile (\<lambda>x. x \<noteq> c) (rev (x # xs))) = x # xs"
        by (simp only: takeWhile_no_sep [OF nm] rev_rev_ident)
      moreover have "split_sep c (x # xs) = [x # xs]"
        by (rule split_sep_no_sep [OF nm])
      then have "last (split_sep c (x # xs)) = x # xs"
        by (metis last.simps)
      ultimately show ?thesis by (simp only:)
    qed
  qed
qed

lemma last_split_after_last_dot: "last (split_sep CHR ''.'' s) = after_last_dot s"
proof (cases "CHR ''.'' \<in> set s")
  case True
  then show ?thesis by (simp add: after_last_dot_def last_split_sep)
next
  case False
  then show ?thesis by (simp add: after_last_dot_def split_sep_no_sep)
qed

lemma upload_body_error:
  assumes "upload_image_body ufile filename image_id out s = (Inl e, s')"
  shows "resolve_filename filename image_id (uf_filename ufile) (metadata s) = Inl e
         \<or> status_code e = 500"
proof (cases "uf_opened ufile")
  case (Inl msg)
  with assms show ?thesis by (auto simp: upload_image_body_def)
next
  case op: (Inr decoded)
  show ?thesis
  proof (cases "resolve_filename filename image_id (uf_filename ufile) (metadata s)")
    case (Inl e')
    with assms op show ?thesis by (simp add: upload_image_body_def)
  next
    case rf: (Inr unique_filename)
    show ?thesis
    proof (cases "save (resize decoded (100, 100)) (os_path_join UPLOAD_DIR unique_filename)
                    out (files s)")
      case (Inl p)
      with assms op rf show ?thesis
        by (cases p) (auto simp: upload_image_body_def)
    next
      case sv: (Inr fs')
      with assms op rf show ?thesis
        by (cases "get_image_info fs' (os_path_join UPLOAD_DIR unique_filename)")
           (auto simp: upload_image_body_def Let_def)
    qed
  qed
qed



lemma set_update_subset: "set (AList.update k v al) \<subseteq> insert (k, v) (set al)"
  by (induction al) auto





lemma init_project_images_records:
  "(k, r) \<in> set (init_project_images fs listing md) \<Longrightarrow>
   (k, r) \<in> set md \<or> (r_source r = ''project'' \<and> (r_filename r, k) \<in> set listing)"
proof (induction listing arbitrary: md)
  case Nil
  then show ?case by simp
next
  case (Cons e listing)
  obtain filename image_id where e: "e = (filename, image_id)" by (cases e)
  show ?case
  proof (cases "list_ex (endswith (lower filename)) image_extensions")
    case False
    with Cons e show ?thesis by auto
  next
    case ext: True
    show ?thesis
    proof (cases "get_image_info fs (os_path_join PROJECT_IMAGES_DIR filename)")
      case None
      with Cons e ext show ?thesis by auto
    next
      case (Some info)
      with Cons.prems e ext
      have "(k, r) \<in> set (init_project_images fs listing
              (AList.update image_id (project_record image_id filename info) md))"
        by simp
      from Cons.IH [OF this]
      show ?thesis
        using set_update_subset [of image_id "project_record image_id filename info" md] e
        by (auto simp: project_record_def)
    qed
  qed
qed

lemma init_project_images_keys_mono:
  "fst ` set md \<subseteq> fst ` set (init_project_images fs listing md)"
proof (induction listing arbitrary: md)
  case Nil
  then show ?case by simp
next
  case (Cons e listing)
  obtain filename image_id where e: "e = (filename, image_id)" by (cases e)
  have "fst ` set md \<subseteq> fst ` set (AList.update image_id v md)" for v
    by (auto simp: dom_update)
  with Cons [of md] Cons show ?case
    by (simp add: e split: option.split) blast
qed

lemma init_project_images_registers:
  "(filename, image_id) \<in> set listing \<Longrightarrow>
   list_ex (endswith (lower filename)) image_extensions \<Longrightarrow>
   get_image_info fs (os_path_join PROJECT_IMAGES_DIR filename) \<noteq> None \<Longrightarrow>
   image_id \<in> fst ` set (init_project_images fs listing md)"
proof (induction listing arbitrary: md)
  case Nil
  then show ?case by simp
next
  case (Cons e listing)
  show ?case
  proof (cases "e = (filename, image_id)")
    case True
    from Cons.prems(3) obtain info where
      gi: "get_image_info fs (os_path_join PROJECT_IMAGES_DIR filename) = Some info" by auto
    have "image_id \<in> fst ` set (AList.update image_id (project_record image_id filename info) md)"
      by (simp add: dom_update)
    with init_project_images_keys_mono
           [of "AList.update image_id (project_record image_id filename info) md" fs listing]
    show ?thesis using True Cons.prems(2) gi by auto
  next
    case False
    with Cons.prems have "(filename, image_id) \<in> set listing" by auto
    from Cons.IH [OF this Cons.prems(2,3)] show ?thesis
      by (cases e) (simp split: option.split)
  qed
qed





section \<open>The claims\<close>

text \<open>
  C1. A successful upload should store and return a record of the image resized to 100
  by 100, with source "uploaded" and the decoded image's size as original dimensions.
  The handler resizes to (100, 100), but on the branch that synthesizes the file name
  it takes the extension from the client's file name unchecked, lets that extension
  choose the format written, and reads the dimensions back from the written file: an
  upload named \<open>favicon.ico\<close> succeeds with a record, and a stored file, of 64 by 64.
\<close>

theorem upload_ico_dimensions:
  "map_sum id (\<lambda>rec. (r_filename rec, r_source rec, r_dimensions rec, r_original_dimensions rec))
     (fst (upload_image example_key (Some example_key) example_icon None example_id1
             (Saved ''RGBA'' 5430 other_writer) empty_state))
   = Inr (''1b4e28ba-2fa1-41d2-883f-0016d3cca427.ico'', ''uploaded'',
          \<lparr>width = 64, height = 64\<rparr>, Some \<lparr>width = 640, height = 480\<rparr>)"
  by (simp add: model_defs example_defs Let_def)

text \<open>
  C2. A bad or duplicate target file name does not give a 400 on every upload: the
  handler decodes the bytes first, and bytes that do not decode end in a 500 whatever
  the target name is.
\<close>

theorem upload_bad_filename_counterexample:
  "fst (upload_image example_key (Some example_key) example_garbage (Some ''notes.txt'')
          example_id1 (Saved ''RGB'' 2048 other_writer) empty_state)
     = Inl (HTTPException 500 ''cannot identify image file'')"
  by (simp add: model_defs example_defs)

text \<open>
  C2, amended. For an upload with a valid key whose bytes decode as an image and whose
  target file name is supplied (not empty): when the name, lowercased, ends with none of
  the accepted extensions, or equals the file name of a stored record, the upload fails
  with 400 and the state (files, map and document) is unchanged.
\<close>

theorem upload_supplied_filename_rejected:
  assumes "get_api_key API_KEY hdr = Inr k"
    and "uf_opened ufile = Inr decoded"
    and "fn \<noteq> []"
    and "\<not> list_ex (endswith (lower fn)) image_extensions
         \<or> (\<exists>r \<in> snd ` set (metadata s). r_filename r = fn)"
  shows "\<exists>d. upload_image API_KEY hdr ufile (Some fn) image_id out s
               = (Inl (HTTPException 400 d), s)"
  using assms
  by (auto simp: upload_image_def upload_image_body_def resolve_filename_def
        HTTP_400_BAD_REQUEST_def list_ex_iff)

theorem upload_supplied_filename_rejected_witness:
  "(\<exists>d. upload_image example_key (Some example_key) example_photo (Some ''notes.txt'')
           example_id2 (Saved ''RGB'' 2048 other_writer) one_upload_state
         = (Inl (HTTPException 400 d), one_upload_state)) \<and>
   (\<exists>d. upload_image example_key (Some example_key) example_photo (Some ''Sunset.PNG'')
           example_id2 (Saved ''RGB'' 2048 other_writer) one_upload_state
         = (Inl (HTTPException 400 d), one_upload_state))"
proof -
  have op: "uf_opened example_photo
              = Inr \<lparr>img_width = 640, img_height = 480, img_format = Some ''JPEG'', img_mode = ''RGB''\<rparr>"
    by (simp add: example_photo_def)
  have a: "\<not> list_ex (endswith (lower ''notes.txt'')) image_extensions
           \<or> (\<exists>r \<in> snd ` set (metadata one_upload_state). r_filename r = ''notes.txt'')"
    by (simp add: lower_def lower_char_def endswith_def image_extensions_def)
  have b: "\<not> list_ex (endswith (lower ''Sunset.PNG'')) image_extensions
           \<or> (\<exists>r \<in> snd ` set (metadata one_upload_state). r_filename r = ''Sunset.PNG'')"
    by (simp add: metadata_one_upload_state sunset_record_def)
  show ?thesis
    using upload_supplied_filename_rejected [OF example_key_valid op _ a]
          upload_supplied_filename_rejected [OF example_key_valid op _ b]
    by simp
qed

text \<open>
  C3. When the resized image has been written and the inspector then fails on the written
  file, the handler removes the file at that path, answers 500 with the message "Failed
  to process uploaded image", and leaves the metadata map and the metadata document as
  they were.
\<close>

theorem upload_inspector_failure_cleanup:
  assumes "get_api_key API_KEY hdr = Inr k"
    and "uf_opened ufile = Inr decoded"
    and "resolve_filename filename image_id (uf_filename ufile) (metadata s) = Inr unique_filename"
    and "path = os_path_join UPLOAD_DIR unique_filename"
    and "save (resize decoded (100, 100)) path out (files s) = Inr fs'"
    and "get_image_info fs' path = None"
  shows "upload_image API_KEY hdr ufile filename image_id out s
           = (Inl (HTTPException 500 ''Failed to process uploaded image''),
              s\<lparr>files := (files s)(path := None)\<rparr>)"
proof -
  from assms(5) have "fs'(path := None) = (files s)(path := None)"
    by (cases out) (auto simp: save_def split: option.splits prod.splits)
  with assms show ?thesis
    by (simp add: upload_image_def upload_image_body_def)
qed

theorem upload_inspector_failure_cleanup_witness:
  "upload_image example_key (Some example_key) example_photo None example_id1
     (SavedUnreadable 17) empty_state
   = (Inl (HTTPException 500 ''Failed to process uploaded image''),
      empty_state\<lparr>files := (files empty_state)
         (''uploaded_images/1b4e28ba-2fa1-41d2-883f-0016d3cca427.JPG'' := None)\<rparr>)"
proof -
  have op: "uf_opened example_photo
              = Inr \<lparr>img_width = 640, img_height = 480, img_format = Some ''JPEG'', img_mode = ''RGB''\<rparr>"
    by (simp add: example_photo_def)
  have rf: "resolve_filename None example_id1 (uf_filename example_photo) (metadata empty_state)
              = Inr ''1b4e28ba-2fa1-41d2-883f-0016d3cca427.JPG''"
    by (simp add: resolve_filename_def example_id1_def example_photo_def)
  have pa: "''uploaded_images/1b4e28ba-2fa1-41d2-883f-0016d3cca427.JPG''
              = os_path_join UPLOAD_DIR ''1b4e28ba-2fa1-41d2-883f-0016d3cca427.JPG''"
    by (simp add: os_path_join_def UPLOAD_DIR_def)
  have sv: "save (resize \<lparr>img_width = 640, img_height = 480, img_format = Some ''JPEG'', img_mode = ''RGB''\<rparr> (100, 100))
              ''uploaded_images/1b4e28ba-2fa1-41d2-883f-0016d3cca427.JPG'' (SavedUnreadable 17)
              (files empty_state)
            = Inr ((files empty_state)
                (''uploaded_images/1b4e28ba-2fa1-41d2-883f-0016d3cca427.JPG'' \<mapsto> OtherFile 17))"
    by (simp add: save_def)
  have gi: "get_image_info ((files empty_state)
                (''uploaded_images/1b4e28ba-2fa1-41d2-883f-0016d3cca427.JPG'' \<mapsto> OtherFile 17))
              ''uploaded_images/1b4e28ba-2fa1-41d2-883f-0016d3cca427.JPG'' = None"
    by (simp add: get_image_info_def)
  show ?thesis
    by (rule upload_inspector_failure_cleanup [OF example_key_valid op rf pa sv gi])
qed

text \<open>
  C4. A delete with a valid key of an id whose record has source "uploaded" removes the
  file of the record from the upload directory (present or not), removes the record
  from the map, writes the map to the document and returns the id and the file name; a
  get of that id then fails with 404.
\<close>

theorem delete_uploaded_record:
  assumes "get_api_key API_KEY hdr = Inr k"
    and "map_of (metadata s) image_id = Some r"
    and "r_source r = ''uploaded''"
  shows "\<exists>s'. delete_image API_KEY hdr image_id s
                = (Inr \<lparr>d_message = ''Image deleted successfully'',
                         d_id = image_id, d_filename = r_filename r\<rparr>, s') \<and>
              files s' = (files s)(os_path_join UPLOAD_DIR (r_filename r) := None) \<and>
              metadata s' = AList.delete image_id (metadata s) \<and>
              map_of (metadata s') image_id = None \<and>
              metadata_file s' = Some (metadata s') \<and>
              get_image image_id s' = Inl (HTTPException 404 ''Image not found'')"
  using assms
  by (simp add: delete_image_def delete_image_body_def save_metadata_def Let_def
        get_image_def delete_conv')

theorem delete_uploaded_record_witness:
  "\<exists>s'. delete_image example_key (Some example_key) example_id1 one_upload_state
          = (Inr \<lparr>d_message = ''Image deleted successfully'', d_id = example_id1,
                  d_filename = ''Sunset.PNG''\<rparr>, s') \<and>
        metadata s' = [] \<and>
        metadata_file s' = Some [] \<and>
        files s' ''uploaded_images/Sunset.PNG'' = None \<and>
        get_image example_id1 s' = Inl (HTTPException 404 ''Image not found'')"
proof -
  have lk: "map_of (metadata one_upload_state) example_id1 = Some sunset_record"
    by (simp add: metadata_one_upload_state)
  have sr: "r_source sunset_record = ''uploaded''"
    by (simp add: sunset_record_def)
  from delete_uploaded_record [OF example_key_valid lk sr]
  show ?thesis
    by (auto simp: metadata_one_upload_state sunset_record_def AList.delete_eq
          os_path_join_def UPLOAD_DIR_def)
qed

text \<open>
  C5. A delete of an id whose record has source "project" always fails with 403, whatever
  the key header, and changes neither the metadata nor any file.
\<close>

theorem delete_project_record_forbidden:
  assumes "map_of (metadata s) image_id = Some r"
    and "r_source r = ''project''"
  shows "\<exists>d. delete_image API_KEY hdr image_id s = (Inl (HTTPException 403 d), s)"
proof (cases "get_api_key API_KEY hdr")
  case (Inl e)
  with get_api_key_Inl [OF Inl] show ?thesis
    by (auto simp: delete_image_def)
next
  case (Inr k)
  with assms show ?thesis
    by (simp add: delete_image_def delete_image_body_def HTTP_403_FORBIDDEN_def)
qed

theorem delete_project_record_forbidden_witness:
  "\<exists>d. delete_image example_key (Some example_key) example_id2 project_state
          = (Inl (HTTPException 403 d), project_state)"
proof -
  have lk: "map_of (metadata project_state) example_id2 = Some rain_record"
    by (simp add: metadata_project_state)
  have sr: "r_source rain_record = ''project''"
    by (simp add: rain_record_def)
  show ?thesis
    by (rule delete_project_record_forbidden [OF lk sr])
qed

text \<open>
  C6. Not every header that differs from the secret gets the "invalid" message: a header
  that is present but empty differs from the secret and gets the "no key" message.
\<close>

theorem empty_api_key_counterexample:
  "[] \<noteq> example_key \<and>
   delete_image example_key (Some []) example_id1 empty_state
     = (Inl (HTTPException 403 ''No API key provided''), empty_state)"
  by (simp add: delete_image_def get_api_key_def HTTP_403_FORBIDDEN_def example_key_def)

text \<open>
  C6, amended. On upload and on delete, a missing or empty key header fails with 403 and
  "No API key provided"; a non-empty header that differs from the secret fails with 403
  and "Invalid API key"; in both cases the state is unchanged.
\<close>

theorem missing_or_invalid_key_rejected:
  "(hdr = None \<or> hdr = Some [] \<longrightarrow>
      upload_image API_KEY hdr ufile filename image_id out s
        = (Inl (HTTPException 403 ''No API key provided''), s) \<and>
      delete_image API_KEY hdr image_id s
        = (Inl (HTTPException 403 ''No API key provided''), s)) \<and>
   (hdr = Some k \<and> k \<noteq> [] \<and> k \<noteq> API_KEY \<longrightarrow>
      upload_image API_KEY hdr ufile filename image_id out s
        = (Inl (HTTPException 403 ''Invalid API key''), s) \<and>
      delete_image API_KEY hdr image_id s
        = (Inl (HTTPException 403 ''Invalid API key''), s))"
  by (auto simp: upload_image_def delete_image_def get_api_key_def HTTP_403_FORBIDDEN_def)

theorem missing_or_invalid_key_rejected_witness:
  "upload_image example_key None example_photo None example_id1 (Saved ''RGB'' 900 other_writer) empty_state
     = (Inl (HTTPException 403 ''No API key provided''), empty_state) \<and>
   delete_image example_key (Some ''letmein'') example_id1 empty_state
     = (Inl (HTTPException 403 ''Invalid API key''), empty_state)"
  using missing_or_invalid_key_rejected
          [of None example_key example_photo None example_id1 "Saved ''RGB'' 900 other_writer"
              empty_state "''letmein''"]
        missing_or_invalid_key_rejected
          [of "Some ''letmein''" example_key example_photo None example_id1
              "Saved ''RGB'' 900 other_writer" empty_state "''letmein''"]
  by (simp add: example_key_def)

text \<open>
  C7. At startup the project directory is scanned exactly when the metadata document is
  absent or empty: then the map is what the scan registers (only project records, each
  from an entry of the listing, and every entry with an image extension that the
  inspector reads is registered) and it is written to the document. With a document that
  holds records the map is the document, whatever the directory holds, and nothing is
  written.
\<close>

theorem startup_scans_iff_empty:
  "(doc = None \<or> doc = Some [] \<longrightarrow>
      startup doc fs listing
        = \<lparr>metadata = init_project_images fs listing [],
           metadata_file = Some (init_project_images fs listing []),
           files = fs\<rparr> \<and>
      (\<forall>(k, r) \<in> set (metadata (startup doc fs listing)).
          r_source r = ''project'' \<and> (r_filename r, k) \<in> set listing) \<and>
      (\<forall>(filename, image_id) \<in> set listing.
          list_ex (endswith (lower filename)) image_extensions \<and>
          get_image_info fs (os_path_join PROJECT_IMAGES_DIR filename) \<noteq> None \<longrightarrow>
          image_id \<in> fst ` set (metadata (startup doc fs listing)))) \<and>
   (doc = Some m \<and> m \<noteq> [] \<longrightarrow>
      startup doc fs listing = \<lparr>metadata = m, metadata_file = Some m, files = fs\<rparr>)"
proof (intro conjI impI)
  assume empty: "doc = None \<or> doc = Some []"
  then show st: "startup doc fs listing
        = \<lparr>metadata = init_project_images fs listing [],
           metadata_file = Some (init_project_images fs listing []),
           files = fs\<rparr>"
    by (auto simp: startup_def load_metadata_def save_metadata_def Let_def)
  show "\<forall>(k, r) \<in> set (metadata (startup doc fs listing)).
          r_source r = ''project'' \<and> (r_filename r, k) \<in> set listing"
    using init_project_images_records [of _ _ fs listing "[]"] by (auto simp: st)
  show "\<forall>(filename, image_id) \<in> set listing.
          list_ex (endswith (lower filename)) image_extensions \<and>
          get_image_info fs (os_path_join PROJECT_IMAGES_DIR filename) \<noteq> None \<longrightarrow>
          image_id \<in> fst ` set (metadata (startup doc fs listing))"
    using init_project_images_registers [of _ _ listing fs "[]"] by (auto simp: st)
next
  assume "doc = Some m \<and> m \<noteq> []"
  then show "startup doc fs listing = \<lparr>metadata = m, metadata_file = Some m, files = fs\<rparr>"
    by (simp add: startup_def load_metadata_def)
qed

theorem startup_scans_iff_empty_witness:
  "startup None project_files project_listing
     = \<lparr>metadata = [(example_id2, rain_record)],
        metadata_file = Some [(example_id2, rain_record)],
        files = project_files\<rparr> \<and>
   startup (Some [(example_id1, sunset_record)]) project_files project_listing
     = \<lparr>metadata = [(example_id1, sunset_record)],
        metadata_file = Some [(example_id1, sunset_record)],
        files = project_files\<rparr>"
proof -
  have i: "init_project_images project_files project_listing [] = [(example_id2, rain_record)]"
    by (simp add: project_files_def project_listing_def rain_record_def no_files_def
          lower_def lower_char_def endswith_def image_extensions_def os_path_join_def
          PROJECT_IMAGES_DIR_def get_image_info_def project_record_def size_kb_of_def)
  from startup_scans_iff_empty [of None project_files project_listing "[]"]
       startup_scans_iff_empty
         [of "Some [(example_id1, sunset_record)]" project_files project_listing
             "[(example_id1, sunset_record)]"]
  show ?thesis by (simp add: i)
qed




text \<open>
  C9. After an upload or a delete that completes successfully, the metadata document on
  disk holds exactly the metadata map in memory.
\<close>

theorem mutation_persists_metadata:
  "(upload_image API_KEY hdr ufile filename image_id out s = (Inr rec, s') \<longrightarrow>
      metadata_file s' = Some (metadata s')) \<and>
   (delete_image API_KEY hdr image_id s = (Inr reply, s'') \<longrightarrow>
      metadata_file s'' = Some (metadata s''))"
proof (intro conjI impI)
  assume "upload_image API_KEY hdr ufile filename image_id out s = (Inr rec, s')"
  from upload_body_success [OF upload_success_body [OF this]]
  show "metadata_file s' = Some (metadata s')" by blast
next
  assume "delete_image API_KEY hdr image_id s = (Inr reply, s'')"
  then show "metadata_file s'' = Some (metadata s'')"
    by (auto simp: delete_image_def delete_image_body_def save_metadata_def Let_def
             split: sum.splits option.splits if_splits)
qed

theorem mutation_persists_metadata_witness:
  "(\<exists>rec s'. upload_image example_key (Some example_key) example_photo (Some ''Sunset.PNG'')
                example_id1 (Saved ''RGB'' 2048 other_writer) empty_state = (Inr rec, s') \<and>
              metadata_file s' = Some (metadata s')) \<and>
   (\<exists>reply s''. delete_image example_key (Some example_key) example_id1 one_upload_state
                  = (Inr reply, s'') \<and>
                metadata_file s'' = Some (metadata s''))"
proof -
  have "\<exists>rec s'. upload_image example_key (Some example_key) example_photo (Some ''Sunset.PNG'')
          example_id1 (Saved ''RGB'' 2048 other_writer) empty_state = (Inr rec, s')"
    by (simp add: model_defs example_defs Let_def)
  then obtain rec s' where
    u: "upload_image example_key (Some example_key) example_photo (Some ''Sunset.PNG'')
          example_id1 (Saved ''RGB'' 2048 other_writer) empty_state = (Inr rec, s')"
    by blast
  have "\<exists>reply s''. delete_image example_key (Some example_key) example_id1 one_upload_state
          = (Inr reply, s'')"
    by (simp add: delete_image_def delete_image_body_def example_key_valid
          metadata_one_upload_state sunset_record_def Let_def)
  then obtain reply s'' where
    d: "delete_image example_key (Some example_key) example_id1 one_upload_state = (Inr reply, s'')"
    by blast
  from mutation_persists_metadata
         [of example_key "Some example_key" example_photo "Some ''Sunset.PNG''" example_id1
             "Saved ''RGB'' 2048 other_writer" empty_state rec s']
       mutation_persists_metadata
         [of example_key "Some example_key" _ _ example_id1 _ one_upload_state _ _ reply s'']
  show ?thesis using u d by auto
qed

text \<open>
  C10. An upload without a target file name (absent or empty) takes as destination the
  id, a dot and the part of the client's file name after its last dot (the whole name
  when it has no dot), whatever the stored records and the extension are; it never
  fails with 400.
\<close>

theorem upload_synthesized_filename:
  assumes "filename = None \<or> filename = Some []"
  shows "resolve_filename filename image_id (uf_filename ufile) md
           = Inr (image_id @ ''.'' @ after_last_dot (uf_filename ufile)) \<and>
         (\<forall>e s'. upload_image API_KEY hdr ufile filename image_id out s = (Inl e, s')
            \<longrightarrow> status_code e \<noteq> 400) \<and>
         (\<forall>rec s'. upload_image API_KEY hdr ufile filename image_id out s = (Inr rec, s')
            \<longrightarrow> r_filename rec = image_id @ ''.'' @ after_last_dot (uf_filename ufile))"
proof -
  have rf: "resolve_filename filename image_id (uf_filename ufile) md
              = Inr (image_id @ ''.'' @ after_last_dot (uf_filename ufile))" for md
    using assms by (auto simp: resolve_filename_def last_split_after_last_dot)
  have er: "status_code e \<noteq> 400"
    if up: "upload_image API_KEY hdr ufile filename image_id out s = (Inl e, s')" for e s'
  proof (cases "get_api_key API_KEY hdr")
    case (Inl e')
    with up have "e = e'" by (simp add: upload_image_def)
    with get_api_key_Inl [OF Inl] show ?thesis by auto
  next
    case (Inr k)
    with up have "upload_image_body ufile filename image_id out s = (Inl e, s')"
      by (simp add: upload_image_def)
    from upload_body_error [OF this] show ?thesis by (simp add: rf)
  qed
  have ok: "r_filename rec = image_id @ ''.'' @ after_last_dot (uf_filename ufile)"
    if "upload_image API_KEY hdr ufile filename image_id out s = (Inr rec, s')" for rec s'
    using upload_body_success [OF upload_success_body [OF that]]
    by (auto simp: rf uploaded_record_def)
  show ?thesis using rf er ok by blast
qed

theorem upload_synthesized_filename_witness:
  "resolve_filename None example_id2 (uf_filename example_photo) (metadata one_upload_state)
     = Inr ''6fa459ea-ee8a-4ca4-894e-db77e160355e.JPG'' \<and>
   (\<exists>rec s'. upload_image example_key (Some example_key) example_photo None example_id2
                (Saved ''RGB'' 900 other_writer) one_upload_state = (Inr rec, s') \<and>
              r_filename rec = ''6fa459ea-ee8a-4ca4-894e-db77e160355e.JPG'')"
proof -
  have a: "after_last_dot (uf_filename example_photo) = ''JPG''"
    by (simp add: after_last_dot_def example_photo_def)
  have "\<exists>rec s'. upload_image example_key (Some example_key) example_photo None example_id2
          (Saved ''RGB'' 900 other_writer) one_upload_state = (Inr rec, s')"
    by (simp add: upload_image_def upload_image_body_def example_key_valid
          metadata_one_upload_state resolve_filename_def save_def get_image_info_def
          os_path_join_def UPLOAD_DIR_def example_photo_def example_id2_def
          save_metadata_def resize_def splitext_ext_def known_written_def lower_def
          lower_char_def other_writer_def Let_def)
  then obtain rec s' where
    u: "upload_image example_key (Some example_key) example_photo None example_id2
          (Saved ''RGB'' 900 other_writer) one_upload_state = (Inr rec, s')"
    by blast
  from upload_synthesized_filename
         [of None example_id2 example_photo "metadata one_upload_state" example_key
             "Some example_key" "Saved ''RGB'' 900 other_writer" one_upload_state]
  show ?thesis using u a by (auto simp: example_id2_def)
qed

end
